theory Spec2Isabelle
  imports Complex_Main "HOL-Library.Word"
begin

unbundle bit_operations_syntax

section \<open>The heartbeat client of \<^verbatim>\<open>cmd/root.go\<close>\<close>

text \<open>
  Go strings are byte sequences, so they are modelled as \<^typ>\<open>string\<close> (a list of 8-bit
  characters): \<^verbatim>\<open>len(s)\<close> is \<^term>\<open>length s\<close> and \<^verbatim>\<open>s[:n]\<close> is \<^term>\<open>take n s\<close>.
  A run-time panic of the Go program is a value of type \<open>panic\<close>, returned on the left of
  a sum.
\<close>

datatype panic = SliceBoundsOutOfRange | NilPointerDereference

subsection \<open>Library functions of package \<^verbatim>\<open>strings\<close>\<close>

text \<open>
  \<^verbatim>\<open>strings.Replace(s, old, new, -1)\<close> replaces every non-overlapping occurrence of
  \<open>old\<close>, scanning from the left. The only call site passes the non-empty constant
  \<^verbatim>\<open>"Time zone"\<close>; for an empty \<open>old\<close> the model copies \<open>s\<close>.
\<close>

fun Replace :: "string \<Rightarrow> string \<Rightarrow> string \<Rightarrow> string" where
  "Replace [] old new = []"
| "Replace (c # cs) old new =
     (if old \<noteq> [] \<and> take (length old) (c # cs) = old
      then new @ Replace (drop (length old - 1) cs) old new
      else c # Replace cs old new)"

text \<open>
  \<^verbatim>\<open>strings.Split(s, "/")\<close> with a one-byte separator: the pieces between the
  separators, so a string without separator gives one piece and the empty string gives
  one empty piece.
\<close>

fun Split :: "string \<Rightarrow> char \<Rightarrow> string list" where
  "Split [] sep = [[]]"
| "Split (c # cs) sep =
     (if c = sep then [] # Split cs sep
      else (case Split cs sep of
              [] \<Rightarrow> [[c]]
            | p # ps \<Rightarrow> (c # p) # ps))"

text \<open>\<^verbatim>\<open>strings.Join(parts, "/")\<close>.\<close>

fun Join :: "string list \<Rightarrow> string \<Rightarrow> string" where
  "Join [] sep = []"
| "Join [p] sep = p"
| "Join (p # q # ps) sep = p @ sep @ Join (q # ps) sep"

subsection \<open>\<^verbatim>\<open>truncateString\<close>\<close>

definition truncateString :: "string \<Rightarrow> nat \<Rightarrow> string" where
  "truncateString s len = (if length s \<le> len then s else take len s)"

subsection \<open>\<^verbatim>\<open>timezoneLocationName\<close>\<close>

text \<open>
  What the resolver reads from the machine it runs on, one field per call:
  \<^item> \<open>LookupEnv_TZ\<close>: \<^verbatim>\<open>os.LookupEnv("TZ")\<close>, \<open>None\<close> when the variable is not set;
  \<^item> \<open>timedatectl_Output\<close>: the output of the \<^verbatim>\<open>timedatectl\<close> command, \<open>None\<close> when
    running it returns an error;
  \<^item> \<open>FindStringSubmatch\<close>: the match of the compiled pattern
    \<^verbatim>\<open>(?m:Timezone:\s+(\S+).+$)\<close> on a text, \<open>None\<close> for Go's \<^verbatim>\<open>nil\<close>; the regular
    expression engine belongs to Go's library and is a parameter here;
  \<^item> \<open>Lstat_localtime\<close>: the mode bits \<^verbatim>\<open>os.Lstat("/etc/localtime")\<close> reports
    (\<^verbatim>\<open>os.FileMode\<close> is a \<^verbatim>\<open>uint32\<close>), \<open>None\<close> on error;
  \<^item> \<open>Readlink_localtime\<close>: \<^verbatim>\<open>os.Readlink("/etc/localtime")\<close>, \<open>None\<close> on error;
  \<^item> \<open>ReadFile_timezone\<close>: the bytes of \<^verbatim>\<open>/etc/timezone\<close>, \<open>None\<close> on error.
\<close>

record tz_env =
  LookupEnv_TZ :: "string option"
  timedatectl_Output :: "string option"
  FindStringSubmatch :: "string \<Rightarrow> string list option"
  Lstat_localtime :: "32 word option"
  Readlink_localtime :: "string option"
  ReadFile_timezone :: "string option"

text \<open>\<^verbatim>\<open>os.ModeSymlink\<close> is bit 27 of the mode.\<close>

definition ModeSymlink :: "32 word" where
  "ModeSymlink = 0x8000000"

text \<open>Lines 242 to 247: the timezone file, else the empty string.\<close>

definition timezone_from_file :: "tz_env \<Rightarrow> panic + string" where
  "timezone_from_file e =
     (case ReadFile_timezone e of
        Some locale \<Rightarrow> Inr locale
      | None \<Rightarrow> Inr [])"

text \<open>
  Lines 234 to 240. The error of \<^verbatim>\<open>os.Readlink\<close> is discarded and its string is then
  empty. \<^verbatim>\<open>symlinkParts[len(symlinkParts)-2:]\<close> panics when the lower bound is negative,
  that is, when the link target has fewer than two pieces.
\<close>

definition timezone_from_symlink :: "tz_env \<Rightarrow> panic + string" where
  "timezone_from_symlink e =
     (case Lstat_localtime e of
        None \<Rightarrow> timezone_from_file e
      | Some mode \<Rightarrow>
          if mode AND ModeSymlink = ModeSymlink then
            (let symlink = (case Readlink_localtime e of None \<Rightarrow> [] | Some l \<Rightarrow> l) in
             if length symlink > 0 then
               (let symlinkParts = Split symlink CHR ''/'' in
                if int (length symlinkParts) - 2 < 0 then Inl SliceBoundsOutOfRange
                else Inr (Join (drop (length symlinkParts - 2) symlinkParts) ''/''))
             else timezone_from_file e)
          else timezone_from_file e)"

text \<open>Lines 225 to 232.\<close>

definition timezone_from_timedatectl :: "tz_env \<Rightarrow> panic + string" where
  "timezone_from_timedatectl e =
     (case timedatectl_Output e of
        None \<Rightarrow> timezone_from_symlink e
      | Some output \<Rightarrow>
          (let outputString = Replace output ''Time zone'' ''Timezone'' in
           case FindStringSubmatch e outputString of
             None \<Rightarrow> timezone_from_symlink e
           | Some ret \<Rightarrow>
               if length ret > 1 then Inr (ret ! 1) else timezone_from_symlink e))"

definition timezoneLocationName :: "tz_env \<Rightarrow> panic + string" where
  "timezoneLocationName e =
     (case LookupEnv_TZ e of
        Some locale \<Rightarrow> Inr locale
      | None \<Rightarrow> timezone_from_timedatectl e)"

subsection \<open>Numbers and their formatting\<close>

text \<open>
  A \<^verbatim>\<open>float64\<close> is either a finite number, kept as its exact rational value (negative
  zero apart), an infinity or a NaN. The comparison \<^verbatim>\<open>timestamp > 0\<close> is false for a NaN.
\<close>

datatype float64 = Finite rat | NegZero | PosInf | NegInf | NaN

fun float64_gt_zero :: "float64 \<Rightarrow> bool" where
  "float64_gt_zero (Finite q) = (q > 0)"
| "float64_gt_zero NegZero = False"
| "float64_gt_zero PosInf = True"
| "float64_gt_zero NegInf = False"
| "float64_gt_zero NaN = False"

text \<open>The verb \<^verbatim>\<open>%d\<close> of \<^verbatim>\<open>fmt.Sprintf\<close>: decimal digits, with a minus sign below zero.\<close>

fun decimal :: "nat \<Rightarrow> string" where
  "decimal n =
     (if n < 10 then [''0123456789'' ! n]
      else decimal (n div 10) @ [''0123456789'' ! (n mod 10)])"

declare decimal.simps [simp del]

definition Sprintf_d :: "int \<Rightarrow> string" where
  "Sprintf_d k = (if k < 0 then CHR ''-'' # decimal (nat (- k)) else decimal (nat k))"

text \<open>
  \<^verbatim>\<open>strconv.FormatFloat(x, 'f', 3, 64)\<close> as Go's library computes it: a NaN and the
  infinities are spelled out; any other number is written with a minus sign when it is
  negative (negative zero included), the digits of its integer part, a point and three
  digits, the exact value being rounded to thousandths, a tie going to the even digit.
\<close>

definition round_half_even :: "rat \<Rightarrow> int" where
  "round_half_even x =
     (let f = \<lfloor>x\<rfloor>; r = x - of_int f in
      if r < 1 / 2 then f
      else if 1 / 2 < r then f + 1
      else if even f then f
      else f + 1)"

definition pad3 :: "nat \<Rightarrow> string" where
  "pad3 n = [''0123456789'' ! (n div 100 mod 10), ''0123456789'' ! (n div 10 mod 10),
             ''0123456789'' ! (n mod 10)]"

fun FormatFloat_f3 :: "float64 \<Rightarrow> string" where
  "FormatFloat_f3 NaN = ''NaN''"
| "FormatFloat_f3 PosInf = ''+Inf''"
| "FormatFloat_f3 NegInf = ''-Inf''"
| "FormatFloat_f3 NegZero = ''-0.000''"
| "FormatFloat_f3 (Finite q) =
     (let thousandths = nat (round_half_even (\<bar>q\<bar> * 1000)) in
      (if q < 0 then ''-'' else []) @ decimal (thousandths div 1000) @ ''.''
        @ pad3 (thousandths mod 1000))"

text \<open>
  Fixed-point notation with three decimals: an optional minus sign, one digit or more, a
  point, and exactly three digits; no exponent and no other character.
\<close>

definition is_digit :: "char \<Rightarrow> bool" where
  "is_digit c = (c \<in> set ''0123456789'')"

definition fixed_point_3 :: "string \<Rightarrow> bool" where
  "fixed_point_3 s =
     (let t = (case s of [] \<Rightarrow> s | c # r \<Rightarrow> if c = CHR ''-'' then r else s);
          whole = takeWhile is_digit t;
          rest = dropWhile is_digit t
      in whole \<noteq> [] \<and>
         (case rest of
            [] \<Rightarrow> False
          | p # decimals \<Rightarrow> p = CHR ''.'' \<and> length decimals = 3 \<and> list_all is_digit decimals))"

subsection \<open>\<^verbatim>\<open>url.QueryEscape\<close>\<close>

text \<open>
  Go's \<^verbatim>\<open>net/url\<close>: letters, digits and the four marks \<^verbatim>\<open>-_.~\<close> are kept, a space
  becomes \<^verbatim>\<open>+\<close>, every other byte becomes \<^verbatim>\<open>%\<close> and two upper-case hexadecimal digits.
\<close>

definition shouldEscape :: "char \<Rightarrow> bool" where
  "shouldEscape c =
     (let n = (of_char c :: nat) in
      if (97 \<le> n \<and> n \<le> 122) \<or> (65 \<le> n \<and> n \<le> 90) \<or> (48 \<le> n \<and> n \<le> 57) then False
      else if c \<in> set ''-_.~'' then False
      else True)"

definition escape_byte :: "char \<Rightarrow> string" where
  "escape_byte c =
     (if shouldEscape c then
        (if c = CHR '' '' then ''+''
         else [CHR ''%'', ''0123456789ABCDEF'' ! ((of_char c :: nat) div 16),
               ''0123456789ABCDEF'' ! ((of_char c :: nat) mod 16)])
      else [c])"

definition QueryEscape :: "string \<Rightarrow> string" where
  "QueryEscape s = concat (map escape_byte s)"

text \<open>
  Go's \<^verbatim>\<open>net/url\<close> (since Go 1.12) refuses to parse a URL that holds an ASCII control
  byte; \<^verbatim>\<open>http.NewRequest\<close> then returns a \<^verbatim>\<open>nil\<close> request and an error.
\<close>

definition stringContainsCTLByte :: "string \<Rightarrow> bool" where
  "stringContainsCTLByte s =
     list_ex (\<lambda>b. (of_char b :: nat) < 32 \<or> (of_char b :: nat) = 127) s"

subsection \<open>\<^verbatim>\<open>sendPing\<close>\<close>

text \<open>
  The result of \<^verbatim>\<open>Client.Do\<close> followed by \<^verbatim>\<open>ioutil.ReadAll\<close>: a transport error with
  its message, or a response with its status code and whether reading its body failed.
\<close>

datatype outcome =
    is_TransportError: TransportError string
  | is_Response: Response (StatusCode: int) (ReadAll_err: bool)

text \<open>
  What a delivery reads from the process and the network:
  \<^item> \<open>dev\<close>: the flag \<^verbatim>\<open>--use-dev\<close>;
  \<^item> \<open>ping_api_key\<close>: \<^verbatim>\<open>viper.GetString(varPingApiKey)\<close>;
  \<^item> \<open>hostname_override\<close>: \<^verbatim>\<open>viper.GetString(varHostname)\<close>;
  \<^item> \<open>os_Hostname\<close>: \<^verbatim>\<open>os.Hostname()\<close>, \<open>None\<close> on error;
  \<^item> \<open>FormatFloat\<close>: \<^verbatim>\<open>strconv.FormatFloat(x, 'f', 3, 64)\<close>, Go's formatting of a
    floating-point number, a parameter here;
  \<^item> \<open>NewRequest_ok\<close>: whether \<^verbatim>\<open>http.NewRequest("GET", uri, nil)\<close> returns a request;
    when it returns an error (the URI does not parse) the request is \<^verbatim>\<open>nil\<close>;
  \<^item> \<open>Client_Do\<close>: what the network answers to the request of attempt \<open>i\<close>.
\<close>

record world =
  dev :: bool
  ping_api_key :: string
  hostname_override :: string
  os_Hostname :: "string option"
  FormatFloat :: "float64 \<Rightarrow> string"
  NewRequest_ok :: "string \<Rightarrow> bool"
  Client_Do :: "nat \<Rightarrow> outcome"

definition effectiveHostname :: "world \<Rightarrow> string" where
  "effectiveHostname w =
     (if length (hostname_override w) > 0 then hostname_override w
      else (case os_Hostname w of None \<Rightarrow> [] | Some h \<Rightarrow> h))"

definition formatStamp :: "world \<Rightarrow> float64 \<Rightarrow> string" where
  "formatStamp w timestamp = FormatFloat w timestamp"

text \<open>
  The seven strings that lines 112 to 147 prepare, named after the query parameter each
  one carries: the locals \<^verbatim>\<open>formattedStamp\<close>, \<^verbatim>\<open>message\<close>, \<^verbatim>\<open>pingApiAuthKey\<close>,
  \<^verbatim>\<open>hostname\<close>, \<^verbatim>\<open>formattedDuration\<close>, \<^verbatim>\<open>tag\<close> and \<^verbatim>\<open>formattedStatusCode\<close> as they
  are when the loop starts.
\<close>

record query =
  q_stamp :: string
  q_msg :: string
  q_auth_key :: string
  q_host :: string
  q_duration :: string
  q_tag :: string
  q_status_code :: string

definition pingQuery ::
  "world \<Rightarrow> string \<Rightarrow> string \<Rightarrow> float64 \<Rightarrow> float64 option \<Rightarrow> int option \<Rightarrow> query" where
  "pingQuery w message tag timestamp duration exitCode =
     (let pingApiAuthKey = ping_api_key w;
          hostname = effectiveHostname w
      in \<lparr>q_stamp = (if float64_gt_zero timestamp
                      then ''&stamp='' @ formatStamp w timestamp else []),
          q_msg = (if length message > 0
                    then ''&msg='' @ QueryEscape (truncateString message 2000) else message),
          q_auth_key = (if length pingApiAuthKey > 0
                         then ''&auth_key='' @ truncateString pingApiAuthKey 50
                         else pingApiAuthKey),
          q_host = (if length hostname > 0
                     then ''&host='' @ QueryEscape (truncateString hostname 50) else hostname),
          q_duration = (case duration of
                          None \<Rightarrow> []
                        | Some d \<Rightarrow> ''&duration='' @ formatStamp w d),
          q_tag = (if length tag > 0 then ''&tag='' @ tag else tag),
          q_status_code = (case exitCode of
                             None \<Rightarrow> []
                           | Some c \<Rightarrow> ''&status_code='' @ Sprintf_d c)\<rparr>)"

text \<open>
  Lines 151 to 158. The variable \<^verbatim>\<open>host\<close> is declared inside the loop body, so it is the
  empty string whenever the second condition is evaluated.
\<close>

definition pingHost :: "bool \<Rightarrow> nat \<Rightarrow> string" where
  "pingHost d i =
     (let host = [] in
      if d then ''http://dev.cronitor.io''
      else if i > 2 \<and> host = ''https://cronitor.link'' then ''https://cronitor.io''
      else ''https://cronitor.link'')"

text \<open>Line 160.\<close>

definition pingUri :: "bool \<Rightarrow> string \<Rightarrow> string \<Rightarrow> query \<Rightarrow> nat \<Rightarrow> string" where
  "pingUri d uniqueIdentifier endpoint q i =
     pingHost d i @ ''/'' @ uniqueIdentifier @ ''/'' @ endpoint @ ''?try='' @ Sprintf_d (int i)
       @ q_stamp q @ q_msg q @ q_auth_key q @ q_host q @ q_duration q @ q_tag q
       @ q_status_code q"

text \<open>
  What a delivery does, in order: a line given to \<^verbatim>\<open>log\<close>, a request sent with
  \<^verbatim>\<open>Client.Do\<close>, a call of \<^verbatim>\<open>time.Sleep\<close> with its number of seconds, a response
  body closed. The loop ends by its \<^verbatim>\<open>break\<close> at attempt \<open>i\<close> (\<open>Succeeded i\<close>), by
  its condition \<^verbatim>\<open>i <= 6\<close> becoming false (\<open>GaveUp\<close>), or by a panic at attempt \<open>i\<close>.
\<close>

datatype event = Log string | Do string | Sleep nat | CloseBody

datatype final = Succeeded nat | GaveUp | Panicked nat panic

definition emit :: "event list \<Rightarrow> event list \<times> final \<Rightarrow> event list \<times> final" where
  "emit es r = (es @ fst r, snd r)"

text \<open>
  Lines 149 to 183. The error of \<^verbatim>\<open>http.NewRequest\<close> is overwritten without being
  read, and \<^verbatim>\<open>request.Header\<close> dereferences the request.
\<close>

function sendPing_loop ::
  "world \<Rightarrow> string \<Rightarrow> string \<Rightarrow> query \<Rightarrow> nat \<Rightarrow> event list \<times> final" where
  "sendPing_loop w uniqueIdentifier endpoint q i =
     (if i \<le> 6 then
        (let uri = pingUri (dev w) uniqueIdentifier endpoint q i in
         if NewRequest_ok w uri then
           (case Client_Do w i of
              TransportError msg \<Rightarrow>
                emit ([Log (''Sending ping '' @ uri), Do uri, Log msg]
                      @ (if i > 2 then [Sleep 2] else []))
                  (sendPing_loop w uniqueIdentifier endpoint q (i + 1))
            | Response status readErr \<Rightarrow>
                if \<not> readErr \<and> status < 400
                then ([Log (''Sending ping '' @ uri), Do uri], Succeeded i)
                else emit [Log (''Sending ping '' @ uri), Do uri, CloseBody]
                       (sendPing_loop w uniqueIdentifier endpoint q (i + 1)))
         else ([Log (''Sending ping '' @ uri)], Panicked i NilPointerDereference))
      else ([], GaveUp))"
  by pat_completeness auto
termination
  by (relation "measure (\<lambda>(w, uniqueIdentifier, endpoint, q, i). 7 - i)") auto

declare sendPing_loop.simps [simp del]

text \<open>
  The function itself: lines 112 to 147, then the loop from attempt 1. The client's
  timeout of three seconds shows only in what \<open>Client_Do\<close> answers, a sleep is recorded
  and takes no time, and the deferred \<^verbatim>\<open>group.Done()\<close>, which runs however the function
  ends, is left out.
\<close>

definition sendPing ::
  "world \<Rightarrow> string \<Rightarrow> string \<Rightarrow> string \<Rightarrow> string \<Rightarrow> float64 \<Rightarrow> float64 option
     \<Rightarrow> int option \<Rightarrow> event list \<times> final" where
  "sendPing w endpoint uniqueIdentifier message tag timestamp duration exitCode =
     sendPing_loop w uniqueIdentifier endpoint
       (pingQuery w message tag timestamp duration exitCode) 1"

text \<open>Reading a trace: the URIs requested, and the number of sleeps.\<close>

fun requests :: "event list \<Rightarrow> string list" where
  "requests [] = []"
| "requests (Do u # es) = u # requests es"
| "requests (e # es) = requests es"

fun sleeps :: "event list \<Rightarrow> nat" where
  "sleeps [] = 0"
| "sleeps (Sleep s # es) = Suc (sleeps es)"
| "sleeps (e # es) = sleeps es"

fun actions :: "event list \<Rightarrow> event list" where
  "actions [] = []"
| "actions (Log l # es) = actions es"
| "actions (e # es) = e # actions es"

text \<open>
  The success test of line 178 as a predicate on what the network answered: no transport
  error, the body read without error, and a status code below 400.
\<close>

fun delivered :: "outcome \<Rightarrow> bool" where
  "delivered (TransportError msg) = False"
| "delivered (Response status readErr) = (\<not> readErr \<and> status < 400)"

subsection \<open>The query string as the specification describes it\<close>





section \<open>Facts about the loop of \<^verbatim>\<open>sendPing\<close>\<close>

lemma requests_append: "requests (xs @ ys) = requests xs @ requests ys"
  by (induction xs rule: requests.induct) simp_all

lemma sleeps_append: "sleeps (xs @ ys) = sleeps xs + sleeps ys"
  by (induction xs rule: sleeps.induct) simp_all

lemma actions_append: "actions (xs @ ys) = actions xs @ actions ys"
  by (induction xs rule: actions.induct) simp_all

lemma snd_emit: "snd (emit es r) = snd r"
  by (simp add: emit_def)

lemma fst_emit: "fst (emit es r) = es @ fst r"
  by (simp add: emit_def)

lemma loop_exhausted: "\<not> i \<le> 6 \<Longrightarrow> sendPing_loop w uid ep q i = ([], GaveUp)"
  by (simp add: sendPing_loop.simps [of w uid ep q i])

lemma loop_nil_request:
  "i \<le> 6 \<Longrightarrow> \<not> NewRequest_ok w (pingUri (dev w) uid ep q i) \<Longrightarrow>
   sendPing_loop w uid ep q i =
     ([Log (''Sending ping '' @ pingUri (dev w) uid ep q i)], Panicked i NilPointerDereference)"
  by (simp add: sendPing_loop.simps [of w uid ep q i] Let_def)

lemma loop_transport_error:
  "i \<le> 6 \<Longrightarrow> NewRequest_ok w (pingUri (dev w) uid ep q i) \<Longrightarrow>
   Client_Do w i = TransportError msg \<Longrightarrow>
   sendPing_loop w uid ep q i =
     emit ([Log (''Sending ping '' @ pingUri (dev w) uid ep q i),
            Do (pingUri (dev w) uid ep q i), Log msg] @ (if i > 2 then [Sleep 2] else []))
       (sendPing_loop w uid ep q (i + 1))"
  by (simp add: sendPing_loop.simps [of w uid ep q i] Let_def)

lemma loop_delivered:
  "i \<le> 6 \<Longrightarrow> NewRequest_ok w (pingUri (dev w) uid ep q i) \<Longrightarrow>
   delivered (Client_Do w i) \<Longrightarrow>
   sendPing_loop w uid ep q i =
     ([Log (''Sending ping '' @ pingUri (dev w) uid ep q i),
       Do (pingUri (dev w) uid ep q i)], Succeeded i)"
  by (cases "Client_Do w i") (simp_all add: sendPing_loop.simps [of w uid ep q i] Let_def)

lemma loop_bad_response:
  "i \<le> 6 \<Longrightarrow> NewRequest_ok w (pingUri (dev w) uid ep q i) \<Longrightarrow>
   Client_Do w i = Response status readErr \<Longrightarrow> \<not> delivered (Client_Do w i) \<Longrightarrow>
   sendPing_loop w uid ep q i =
     emit [Log (''Sending ping '' @ pingUri (dev w) uid ep q i),
           Do (pingUri (dev w) uid ep q i), CloseBody]
       (sendPing_loop w uid ep q (i + 1))"
  by (auto simp add: sendPing_loop.simps [of w uid ep q i] Let_def)

lemma loop_not_delivered_final:
  "i \<le> 6 \<Longrightarrow> NewRequest_ok w (pingUri (dev w) uid ep q i) \<Longrightarrow>
   \<not> delivered (Client_Do w i) \<Longrightarrow>
   snd (sendPing_loop w uid ep q i) = snd (sendPing_loop w uid ep q (i + 1))"
  by (cases "Client_Do w i")
     (simp_all add: loop_transport_error loop_bad_response snd_emit)

lemma loop_not_delivered_requests:
  "i \<le> 6 \<Longrightarrow> NewRequest_ok w (pingUri (dev w) uid ep q i) \<Longrightarrow>
   \<not> delivered (Client_Do w i) \<Longrightarrow>
   requests (fst (sendPing_loop w uid ep q i)) =
     pingUri (dev w) uid ep q i # requests (fst (sendPing_loop w uid ep q (i + 1)))"
  by (cases "Client_Do w i")
     (simp_all add: loop_transport_error loop_bad_response fst_emit requests_append)

lemma loop_final:
  "\<forall>k\<in>{i..6}. NewRequest_ok w (pingUri (dev w) uid ep q k) \<Longrightarrow>
   (snd (sendPing_loop w uid ep q i) = Succeeded n) =
   (n \<in> {i..6} \<and> delivered (Client_Do w n) \<and> (\<forall>k\<in>{i..<n}. \<not> delivered (Client_Do w k)))"
proof (induction "7 - i" arbitrary: i)
  case 0
  then have "\<not> i \<le> 6" by simp
  then show ?case by (simp add: loop_exhausted)
next
  case (Suc m)
  then have le: "i \<le> 6" by simp
  with Suc.prems have ok: "NewRequest_ok w (pingUri (dev w) uid ep q i)" by simp
  show ?case
  proof (cases "delivered (Client_Do w i)")
    case True
    have "(n \<in> {i..6} \<and> delivered (Client_Do w n) \<and>
            (\<forall>k\<in>{i..<n}. \<not> delivered (Client_Do w k))) = (n = i)"
    proof
      assume a: "n \<in> {i..6} \<and> delivered (Client_Do w n) \<and>
            (\<forall>k\<in>{i..<n}. \<not> delivered (Client_Do w k))"
      show "n = i"
      proof (rule ccontr)
        assume "n \<noteq> i"
        with a have "i \<in> {i..<n}" by simp
        with a True show False by blast
      qed
    next
      assume "n = i"
      with le True show "n \<in> {i..6} \<and> delivered (Client_Do w n) \<and>
            (\<forall>k\<in>{i..<n}. \<not> delivered (Client_Do w k))" by simp
    qed
    with le ok True show ?thesis by (auto simp add: loop_delivered)
  next
    case False
    have m: "m = 7 - (i + 1)" using Suc.hyps(2) by simp
    have rest: "\<forall>k\<in>{i + 1..6}. NewRequest_ok w (pingUri (dev w) uid ep q k)"
      using Suc.prems by simp
    have ih: "(snd (sendPing_loop w uid ep q (i + 1)) = Succeeded n) =
        (n \<in> {i + 1..6} \<and> delivered (Client_Do w n) \<and>
          (\<forall>k\<in>{i + 1..<n}. \<not> delivered (Client_Do w k)))"
      using Suc.hyps(1) [OF m rest] .
    have "(n \<in> {i + 1..6} \<and> delivered (Client_Do w n) \<and>
            (\<forall>k\<in>{i + 1..<n}. \<not> delivered (Client_Do w k))) =
          (n \<in> {i..6} \<and> delivered (Client_Do w n) \<and>
            (\<forall>k\<in>{i..<n}. \<not> delivered (Client_Do w k)))"
    proof
      assume a: "n \<in> {i + 1..6} \<and> delivered (Client_Do w n) \<and>
            (\<forall>k\<in>{i + 1..<n}. \<not> delivered (Client_Do w k))"
      have "\<not> delivered (Client_Do w k)" if "k \<in> {i..<n}" for k
      proof (cases "k = i")
        case True
        with False show ?thesis by simp
      next
        case False
        with that have "k \<in> {i + 1..<n}" by simp
        with a show ?thesis by blast
      qed
      with a show "n \<in> {i..6} \<and> delivered (Client_Do w n) \<and>
            (\<forall>k\<in>{i..<n}. \<not> delivered (Client_Do w k))" by simp
    next
      assume b: "n \<in> {i..6} \<and> delivered (Client_Do w n) \<and>
            (\<forall>k\<in>{i..<n}. \<not> delivered (Client_Do w k))"
      with False have "n \<noteq> i" by blast
      with b have "n \<in> {i + 1..6}" by simp
      moreover have "\<forall>k\<in>{i + 1..<n}. \<not> delivered (Client_Do w k)"
        using b by simp
      ultimately show "n \<in> {i + 1..6} \<and> delivered (Client_Do w n) \<and>
            (\<forall>k\<in>{i + 1..<n}. \<not> delivered (Client_Do w k))" using b by simp
    qed
    then show ?thesis
      unfolding loop_not_delivered_final [OF le ok False] ih .
  qed
qed

lemma loop_requests:
  "\<forall>k\<in>{i..6}. NewRequest_ok w (pingUri (dev w) uid ep q k) \<Longrightarrow>
   snd (sendPing_loop w uid ep q i) = Succeeded n \<Longrightarrow>
   requests (fst (sendPing_loop w uid ep q i)) = map (pingUri (dev w) uid ep q) [i..<Suc n]"
proof (induction "7 - i" arbitrary: i)
  case 0
  then have "\<not> i \<le> 6" by simp
  with "0.prems"(2) show ?case by (simp add: loop_exhausted)
next
  case (Suc m)
  then have le: "i \<le> 6" by simp
  with Suc.prems have ok: "NewRequest_ok w (pingUri (dev w) uid ep q i)" by simp
  show ?case
  proof (cases "delivered (Client_Do w i)")
    case True
    with le ok Suc.prems(2) have "n = i" by (simp add: loop_delivered)
    with le ok True show ?thesis by (simp add: loop_delivered)
  next
    case False
    have m: "m = 7 - (i + 1)" using Suc.hyps(2) by simp
    have rest: "\<forall>k\<in>{i + 1..6}. NewRequest_ok w (pingUri (dev w) uid ep q k)"
      using Suc.prems by simp
    have fin: "snd (sendPing_loop w uid ep q (i + 1)) = Succeeded n"
      using Suc.prems(2) loop_not_delivered_final [OF le ok False] by simp
    have "n \<in> {i + 1..6}" using fin loop_final [OF rest, of n] by simp
    then have "[i..<Suc n] = i # [i + 1..<Suc n]" by (simp add: upt_conv_Cons)
    then show ?thesis
      using Suc.hyps(1) [OF m rest fin] loop_not_delivered_requests [OF le ok False]
      by simp
  qed
qed

lemma sendPing_unfold:
  "sendPing w ep uid message tag timestamp duration exitCode =
     sendPing_loop w uid ep (pingQuery w message tag timestamp duration exitCode) 1"
  by (simp add: sendPing_def)

lemma loop_transport_error_actions:
  assumes "i \<le> 6" and "NewRequest_ok w (pingUri (dev w) uid ep q i)"
    and "is_TransportError (Client_Do w i)"
  shows "actions (fst (sendPing_loop w uid ep q i)) =
           Do (pingUri (dev w) uid ep q i) # (if i > 2 then [Sleep 2] else [])
             @ actions (fst (sendPing_loop w uid ep q (i + 1)))"
    and "snd (sendPing_loop w uid ep q i) = snd (sendPing_loop w uid ep q (i + 1))"
proof -
  from assms(3) obtain msg where "Client_Do w i = TransportError msg"
    by (cases "Client_Do w i") simp_all
  note step = loop_transport_error [OF assms(1,2) this]
  show "actions (fst (sendPing_loop w uid ep q i)) =
           Do (pingUri (dev w) uid ep q i) # (if i > 2 then [Sleep 2] else [])
             @ actions (fst (sendPing_loop w uid ep q (i + 1)))"
    by (simp add: step fst_emit actions_append)
  show "snd (sendPing_loop w uid ep q i) = snd (sendPing_loop w uid ep q (i + 1))"
    by (simp add: step snd_emit)
qed

lemma loop_bad_response_actions:
  assumes "i \<le> 6" and "NewRequest_ok w (pingUri (dev w) uid ep q i)"
    and "is_Response (Client_Do w i)" and "\<not> delivered (Client_Do w i)"
  shows "actions (fst (sendPing_loop w uid ep q i)) =
           Do (pingUri (dev w) uid ep q i) # CloseBody
             # actions (fst (sendPing_loop w uid ep q (i + 1)))"
    and "snd (sendPing_loop w uid ep q i) = snd (sendPing_loop w uid ep q (i + 1))"
proof -
  from assms(3) obtain status readErr where "Client_Do w i = Response status readErr"
    by (cases "Client_Do w i") simp_all
  note step = loop_bad_response [OF assms(1,2) this assms(4)]
  show "actions (fst (sendPing_loop w uid ep q i)) =
           Do (pingUri (dev w) uid ep q i) # CloseBody
             # actions (fst (sendPing_loop w uid ep q (i + 1)))"
    by (simp add: step fst_emit actions_append)
  show "snd (sendPing_loop w uid ep q i) = snd (sendPing_loop w uid ep q (i + 1))"
    by (simp add: step snd_emit)
qed

lemma Ball_1_6: "(\<forall>k\<in>{1..6::nat}. P k) = (P 1 \<and> P 2 \<and> P 3 \<and> P 4 \<and> P 5 \<and> P 6)"
proof -
  have "{1..6::nat} = {1, 2, 3, 4, 5, 6}" by auto
  then show ?thesis by simp
qed

lemma loop_transport_error_sleeps:
  assumes "i \<le> 6" and "NewRequest_ok w (pingUri (dev w) uid ep q i)"
    and "is_TransportError (Client_Do w i)"
  shows "sleeps (fst (sendPing_loop w uid ep q i)) =
           (if i > 2 then 1 else 0) + sleeps (fst (sendPing_loop w uid ep q (i + 1)))"
proof -
  from assms(3) obtain msg where "Client_Do w i = TransportError msg"
    by (cases "Client_Do w i") simp_all
  note step = loop_transport_error [OF assms(1,2) this]
  show ?thesis by (simp add: step fst_emit sleeps_append)
qed

lemma loop_bad_response_sleeps:
  assumes "i \<le> 6" and "NewRequest_ok w (pingUri (dev w) uid ep q i)"
    and "is_Response (Client_Do w i)" and "\<not> delivered (Client_Do w i)"
  shows "sleeps (fst (sendPing_loop w uid ep q i)) =
           sleeps (fst (sendPing_loop w uid ep q (i + 1)))"
proof -
  from assms(3) obtain status readErr where "Client_Do w i = Response status readErr"
    by (cases "Client_Do w i") simp_all
  note step = loop_bad_response [OF assms(1,2) this assms(4)]
  show ?thesis by (simp add: step fst_emit sleeps_append)
qed

lemma pingHost_eq:
  "pingHost d i = (if d then ''http://dev.cronitor.io'' else ''https://cronitor.link'')"
  by (simp add: pingHost_def)

section \<open>Facts about the query string\<close>











section \<open>The delivery sequence\<close>

text \<open>
  C1. The host does not change at the third attempt. The variable \<^verbatim>\<open>host\<close> is declared
  inside the loop body and is empty when \<^verbatim>\<open>host == "https://cronitor.link"\<close> is
  evaluated, so the branch that selects \<^verbatim>\<open>https://cronitor.io\<close> is never taken: in a run
  without the dev flag whose six attempts all fail, every request, the third to the sixth
  included, goes to \<^verbatim>\<open>https://cronitor.link\<close>.
\<close>

theorem sendPing_third_attempt_keeps_short_link_host:
  "pingHost False 3 = ''https://cronitor.link''
   \<and> requests (fst (sendPing
        \<lparr>dev = False, ping_api_key = [], hostname_override = [], os_Hostname = None,
         FormatFloat = (\<lambda>x. ''0.000''), NewRequest_ok = (\<lambda>u. True),
         Client_Do = (\<lambda>i. TransportError ''dial tcp: i/o timeout'')\<rparr>
        ''run'' ''d3x0c1'' [] [] (Finite 0) None None)) =
       [''https://cronitor.link/d3x0c1/run?try=1'',
        ''https://cronitor.link/d3x0c1/run?try=2'',
        ''https://cronitor.link/d3x0c1/run?try=3'',
        ''https://cronitor.link/d3x0c1/run?try=4'',
        ''https://cronitor.link/d3x0c1/run?try=5'',
        ''https://cronitor.link/d3x0c1/run?try=6'']"
  by (simp add: sendPing_def sendPing_loop.simps emit_def Let_def pingUri_def pingQuery_def
      pingHost_def effectiveHostname_def Sprintf_d_def decimal.simps)

text \<open>
  C2. When the request can be built and every one of the six attempts ends in a transport
  error, the delivery sends six requests and gives up, and it sleeps four times, not three:
  after the third, fourth, fifth and sixth failed attempt. The last sleep comes after the
  sixth request, when no attempt is left.
\<close>

theorem sendPing_transport_errors_sleep_four_times:
  assumes "\<forall>k\<in>{1..6}. NewRequest_ok w
             (pingUri (dev w) uid ep (pingQuery w message tag timestamp duration exitCode) k)"
    and "\<forall>k\<in>{1..6}. is_TransportError (Client_Do w k)"
  shows "actions (fst (sendPing w ep uid message tag timestamp duration exitCode)) =
           [Do (pingUri (dev w) uid ep (pingQuery w message tag timestamp duration exitCode) 1),
            Do (pingUri (dev w) uid ep (pingQuery w message tag timestamp duration exitCode) 2),
            Do (pingUri (dev w) uid ep (pingQuery w message tag timestamp duration exitCode) 3),
            Sleep 2,
            Do (pingUri (dev w) uid ep (pingQuery w message tag timestamp duration exitCode) 4),
            Sleep 2,
            Do (pingUri (dev w) uid ep (pingQuery w message tag timestamp duration exitCode) 5),
            Sleep 2,
            Do (pingUri (dev w) uid ep (pingQuery w message tag timestamp duration exitCode) 6),
            Sleep 2]
         \<and> sleeps (fst (sendPing w ep uid message tag timestamp duration exitCode)) = 4
         \<and> snd (sendPing w ep uid message tag timestamp duration exitCode) = GaveUp"
proof -
  let ?q = "pingQuery w message tag timestamp duration exitCode"
  note ok = assms(1) [unfolded Ball_1_6]
  note te = assms(2) [unfolded Ball_1_6]
  have a: "actions (fst (sendPing_loop w uid ep ?q 1)) =
           [Do (pingUri (dev w) uid ep ?q 1), Do (pingUri (dev w) uid ep ?q 2),
            Do (pingUri (dev w) uid ep ?q 3), Sleep 2,
            Do (pingUri (dev w) uid ep ?q 4), Sleep 2,
            Do (pingUri (dev w) uid ep ?q 5), Sleep 2,
            Do (pingUri (dev w) uid ep ?q 6), Sleep 2]"
    using ok te
    by (simp add: eval_nat_numeral loop_transport_error_actions(1) loop_exhausted)
  have s: "sleeps (fst (sendPing_loop w uid ep ?q 1)) = 4"
    using ok te
    by (simp add: eval_nat_numeral loop_transport_error_sleeps loop_exhausted)
  have f: "snd (sendPing_loop w uid ep ?q 1) = GaveUp"
    using ok te
    by (simp add: eval_nat_numeral loop_transport_error_actions(2) loop_exhausted)
  from a s f show ?thesis by (simp add: sendPing_unfold)
qed

theorem sendPing_transport_errors_sleep_four_times_witness:
  "actions (fst (sendPing
        \<lparr>dev = False, ping_api_key = [], hostname_override = [], os_Hostname = None,
         FormatFloat = (\<lambda>x. ''0.000''), NewRequest_ok = (\<lambda>u. True),
         Client_Do = (\<lambda>i. TransportError ''dial tcp: i/o timeout'')\<rparr>
        ''run'' ''d3x0c1'' [] [] (Finite 0) None None)) =
       [Do ''https://cronitor.link/d3x0c1/run?try=1'',
        Do ''https://cronitor.link/d3x0c1/run?try=2'',
        Do ''https://cronitor.link/d3x0c1/run?try=3'', Sleep 2,
        Do ''https://cronitor.link/d3x0c1/run?try=4'', Sleep 2,
        Do ''https://cronitor.link/d3x0c1/run?try=5'', Sleep 2,
        Do ''https://cronitor.link/d3x0c1/run?try=6'', Sleep 2]
   \<and> sleeps (fst (sendPing
        \<lparr>dev = False, ping_api_key = [], hostname_override = [], os_Hostname = None,
         FormatFloat = (\<lambda>x. ''0.000''), NewRequest_ok = (\<lambda>u. True),
         Client_Do = (\<lambda>i. TransportError ''dial tcp: i/o timeout'')\<rparr>
        ''run'' ''d3x0c1'' [] [] (Finite 0) None None)) = 4"
  using sendPing_transport_errors_sleep_four_times
    [of "\<lparr>dev = False, ping_api_key = [], hostname_override = [], os_Hostname = None,
         FormatFloat = (\<lambda>x. ''0.000''), NewRequest_ok = (\<lambda>u. True),
         Client_Do = (\<lambda>i. TransportError ''dial tcp: i/o timeout'')\<rparr>"
        "''d3x0c1''" "''run''" "[]" "[]" "Finite 0" None None]
  by (simp add: pingUri_def pingQuery_def pingHost_def effectiveHostname_def Sprintf_d_def
      decimal.simps)

text \<open>
  C3. A response that is not a success (a status code of 400 or more, or a body that cannot
  be read) does not get the treatment of a transport error: the next attempt follows at
  once. When all six attempts end so, the delivery sends six requests, closes six bodies,
  never sleeps and gives up.
\<close>

theorem sendPing_bad_responses_never_sleep:
  assumes "\<forall>k\<in>{1..6}. NewRequest_ok w
             (pingUri (dev w) uid ep (pingQuery w message tag timestamp duration exitCode) k)"
    and "\<forall>k\<in>{1..6}. is_Response (Client_Do w k) \<and> \<not> delivered (Client_Do w k)"
  shows "actions (fst (sendPing w ep uid message tag timestamp duration exitCode)) =
           [Do (pingUri (dev w) uid ep (pingQuery w message tag timestamp duration exitCode) 1),
            CloseBody,
            Do (pingUri (dev w) uid ep (pingQuery w message tag timestamp duration exitCode) 2),
            CloseBody,
            Do (pingUri (dev w) uid ep (pingQuery w message tag timestamp duration exitCode) 3),
            CloseBody,
            Do (pingUri (dev w) uid ep (pingQuery w message tag timestamp duration exitCode) 4),
            CloseBody,
            Do (pingUri (dev w) uid ep (pingQuery w message tag timestamp duration exitCode) 5),
            CloseBody,
            Do (pingUri (dev w) uid ep (pingQuery w message tag timestamp duration exitCode) 6),
            CloseBody]
         \<and> sleeps (fst (sendPing w ep uid message tag timestamp duration exitCode)) = 0
         \<and> snd (sendPing w ep uid message tag timestamp duration exitCode) = GaveUp"
proof -
  let ?q = "pingQuery w message tag timestamp duration exitCode"
  note ok = assms(1) [unfolded Ball_1_6]
  note bad = assms(2) [unfolded Ball_1_6]
  have a: "actions (fst (sendPing_loop w uid ep ?q 1)) =
           [Do (pingUri (dev w) uid ep ?q 1), CloseBody, Do (pingUri (dev w) uid ep ?q 2),
            CloseBody, Do (pingUri (dev w) uid ep ?q 3), CloseBody,
            Do (pingUri (dev w) uid ep ?q 4), CloseBody,
            Do (pingUri (dev w) uid ep ?q 5), CloseBody,
            Do (pingUri (dev w) uid ep ?q 6), CloseBody]"
    using ok bad
    by (simp add: eval_nat_numeral loop_bad_response_actions(1) loop_exhausted)
  have s: "sleeps (fst (sendPing_loop w uid ep ?q 1)) = 0"
    using ok bad
    by (simp add: eval_nat_numeral loop_bad_response_sleeps loop_exhausted)
  have f: "snd (sendPing_loop w uid ep ?q 1) = GaveUp"
    using ok bad
    by (simp add: eval_nat_numeral loop_bad_response_actions(2) loop_exhausted)
  from a s f show ?thesis by (simp add: sendPing_unfold)
qed

theorem sendPing_bad_responses_never_sleep_witness:
  "actions (fst (sendPing
        \<lparr>dev = False, ping_api_key = [], hostname_override = [], os_Hostname = None,
         FormatFloat = (\<lambda>x. ''0.000''), NewRequest_ok = (\<lambda>u. True),
         Client_Do = (\<lambda>i. Response 500 False)\<rparr>
        ''run'' ''d3x0c1'' [] [] (Finite 0) None None)) =
       [Do ''https://cronitor.link/d3x0c1/run?try=1'', CloseBody,
        Do ''https://cronitor.link/d3x0c1/run?try=2'', CloseBody,
        Do ''https://cronitor.link/d3x0c1/run?try=3'', CloseBody,
        Do ''https://cronitor.link/d3x0c1/run?try=4'', CloseBody,
        Do ''https://cronitor.link/d3x0c1/run?try=5'', CloseBody,
        Do ''https://cronitor.link/d3x0c1/run?try=6'', CloseBody]
   \<and> sleeps (fst (sendPing
        \<lparr>dev = False, ping_api_key = [], hostname_override = [], os_Hostname = None,
         FormatFloat = (\<lambda>x. ''0.000''), NewRequest_ok = (\<lambda>u. True),
         Client_Do = (\<lambda>i. Response 500 False)\<rparr>
        ''run'' ''d3x0c1'' [] [] (Finite 0) None None)) = 0"
  using sendPing_bad_responses_never_sleep
    [of "\<lparr>dev = False, ping_api_key = [], hostname_override = [], os_Hostname = None,
         FormatFloat = (\<lambda>x. ''0.000''), NewRequest_ok = (\<lambda>u. True),
         Client_Do = (\<lambda>i. Response 500 False)\<rparr>"
        "''d3x0c1''" "''run''" "[]" "[]" "Finite 0" None None]
  by (simp add: pingUri_def pingQuery_def pingHost_def effectiveHostname_def Sprintf_d_def
      decimal.simps)

text \<open>
  C4. When the request can be built, the delivery ends in \<open>Succeeded n\<close> exactly when
  attempt \<open>n\<close>, among the six, is the first one whose response is read without error and
  has a status code below 400; the requests sent are then those of the attempts 1 to \<open>n\<close>
  and no other. In particular, when the first attempt fails and the second returns status
  200 with a readable body, the delivery succeeds at the second attempt after two requests
  and no sleep.
\<close>

theorem sendPing_succeeds_at_first_delivered:
  assumes "\<forall>k\<in>{1..6}. NewRequest_ok w
             (pingUri (dev w) uid ep (pingQuery w message tag timestamp duration exitCode) k)"
  shows "((snd (sendPing w ep uid message tag timestamp duration exitCode) = Succeeded n) =
           (n \<in> {1..6} \<and> delivered (Client_Do w n)
            \<and> (\<forall>k\<in>{1..<n}. \<not> delivered (Client_Do w k))))
         \<and> (snd (sendPing w ep uid message tag timestamp duration exitCode) = Succeeded n \<longrightarrow>
              requests (fst (sendPing w ep uid message tag timestamp duration exitCode)) =
                map (pingUri (dev w) uid ep
                      (pingQuery w message tag timestamp duration exitCode)) [1..<Suc n])
         \<and> (\<not> delivered (Client_Do w 1) \<and> Client_Do w 2 = Response 200 False \<longrightarrow>
              snd (sendPing w ep uid message tag timestamp duration exitCode) = Succeeded 2
              \<and> length (requests (fst (sendPing w ep uid message tag timestamp duration
                   exitCode))) = 2
              \<and> sleeps (fst (sendPing w ep uid message tag timestamp duration exitCode)) = 0)"
proof -
  let ?q = "pingQuery w message tag timestamp duration exitCode"
  let ?run = "sendPing_loop w uid ep ?q 1"
  have first: "(snd ?run = Succeeded n) =
           (n \<in> {1..6} \<and> delivered (Client_Do w n)
            \<and> (\<forall>k\<in>{1..<n}. \<not> delivered (Client_Do w k)))"
    using loop_final [OF assms] .
  have reqs: "snd ?run = Succeeded n \<longrightarrow>
      requests (fst ?run) = map (pingUri (dev w) uid ep ?q) [1..<Suc n]"
    using loop_requests [OF assms] by blast
  have second: "snd ?run = Succeeded 2 \<and> length (requests (fst ?run)) = 2
      \<and> sleeps (fst ?run) = 0"
    if nd: "\<not> delivered (Client_Do w 1)" and d: "Client_Do w 2 = Response 200 False"
  proof -
    note ok = assms [unfolded Ball_1_6]
    from ok have ok1: "NewRequest_ok w (pingUri (dev w) uid ep ?q 1)" by simp
    from ok have ok2: "NewRequest_ok w (pingUri (dev w) uid ep ?q 2)" by simp
    from d have d2: "delivered (Client_Do w 2)" by simp
    have two: "sendPing_loop w uid ep ?q 2 =
        ([Log (''Sending ping '' @ pingUri (dev w) uid ep ?q 2),
          Do (pingUri (dev w) uid ep ?q 2)], Succeeded 2)"
      using loop_delivered [OF _ ok2 d2] by simp
    show ?thesis
    proof (cases "Client_Do w 1")
      case (TransportError msg)
      have "?run = emit ([Log (''Sending ping '' @ pingUri (dev w) uid ep ?q 1),
            Do (pingUri (dev w) uid ep ?q 1), Log msg] @ (if (1::nat) > 2 then [Sleep 2] else []))
          (sendPing_loop w uid ep ?q (1 + 1))"
        using loop_transport_error [OF _ ok1 TransportError] by simp
      then show ?thesis using two by (simp add: emit_def numeral_2_eq_2)
    next
      case (Response status readErr)
      have "?run = emit [Log (''Sending ping '' @ pingUri (dev w) uid ep ?q 1),
            Do (pingUri (dev w) uid ep ?q 1), CloseBody]
          (sendPing_loop w uid ep ?q (1 + 1))"
        using loop_bad_response [OF _ ok1 Response nd] by simp
      then show ?thesis using two by (simp add: emit_def numeral_2_eq_2)
    qed
  qed
  from first reqs second show ?thesis unfolding sendPing_unfold by blast
qed

theorem sendPing_succeeds_at_first_delivered_witness:
  "snd (sendPing
        \<lparr>dev = False, ping_api_key = [], hostname_override = [], os_Hostname = None,
         FormatFloat = (\<lambda>x. ''0.000''), NewRequest_ok = (\<lambda>u. True),
         Client_Do = (\<lambda>i. if i = 2 then Response 200 False
                           else TransportError ''dial tcp: i/o timeout'')\<rparr>
        ''run'' ''d3x0c1'' [] [] (Finite 0) None None) = Succeeded 2
   \<and> requests (fst (sendPing
        \<lparr>dev = False, ping_api_key = [], hostname_override = [], os_Hostname = None,
         FormatFloat = (\<lambda>x. ''0.000''), NewRequest_ok = (\<lambda>u. True),
         Client_Do = (\<lambda>i. if i = 2 then Response 200 False
                           else TransportError ''dial tcp: i/o timeout'')\<rparr>
        ''run'' ''d3x0c1'' [] [] (Finite 0) None None)) =
       [''https://cronitor.link/d3x0c1/run?try=1'', ''https://cronitor.link/d3x0c1/run?try=2'']
   \<and> sleeps (fst (sendPing
        \<lparr>dev = False, ping_api_key = [], hostname_override = [], os_Hostname = None,
         FormatFloat = (\<lambda>x. ''0.000''), NewRequest_ok = (\<lambda>u. True),
         Client_Do = (\<lambda>i. if i = 2 then Response 200 False
                           else TransportError ''dial tcp: i/o timeout'')\<rparr>
        ''run'' ''d3x0c1'' [] [] (Finite 0) None None)) = 0"
  using sendPing_succeeds_at_first_delivered
    [of "\<lparr>dev = False, ping_api_key = [], hostname_override = [], os_Hostname = None,
         FormatFloat = (\<lambda>x. ''0.000''), NewRequest_ok = (\<lambda>u. True),
         Client_Do = (\<lambda>i. if i = 2 then Response 200 False
                           else TransportError ''dial tcp: i/o timeout'')\<rparr>"
        "''d3x0c1''" "''run''" "[]" "[]" "Finite 0" None None 2]
  by (simp add: pingUri_def pingQuery_def pingHost_def effectiveHostname_def Sprintf_d_def
      decimal.simps upt_rec)

text \<open>
  C10. When \<^verbatim>\<open>http.NewRequest\<close> returns an error for the URI of the first attempt, the
  request is \<^verbatim>\<open>nil\<close> and \<^verbatim>\<open>request.Header\<close> panics: the delivery has logged the URI and
  has sent nothing. An identifier with a line feed gives such a URI.
\<close>

theorem sendPing_nil_request_panics:
  "\<not> NewRequest_ok w
       (pingUri (dev w) uid ep (pingQuery w message tag timestamp duration exitCode) 1) \<Longrightarrow>
   sendPing w ep uid message tag timestamp duration exitCode =
     ([Log (''Sending ping ''
            @ pingUri (dev w) uid ep (pingQuery w message tag timestamp duration exitCode) 1)],
      Panicked 1 NilPointerDereference)"
  using loop_nil_request [of 1 w uid ep "pingQuery w message tag timestamp duration exitCode"]
  by (simp add: sendPing_unfold)

theorem sendPing_nil_request_panics_witness:
  "snd (sendPing
        \<lparr>dev = False, ping_api_key = [], hostname_override = [], os_Hostname = None,
         FormatFloat = (\<lambda>x. ''0.000''),
         NewRequest_ok = (\<lambda>u. if stringContainsCTLByte u then False else True),
         Client_Do = (\<lambda>i. Response 200 False)\<rparr>
        ''run'' (''d3x0c1'' @ [CHR 0x0A]) [] [] (Finite 0) None None)
     = Panicked 1 NilPointerDereference
   \<and> requests (fst (sendPing
        \<lparr>dev = False, ping_api_key = [], hostname_override = [], os_Hostname = None,
         FormatFloat = (\<lambda>x. ''0.000''),
         NewRequest_ok = (\<lambda>u. if stringContainsCTLByte u then False else True),
         Client_Do = (\<lambda>i. Response 200 False)\<rparr>
        ''run'' (''d3x0c1'' @ [CHR 0x0A]) [] [] (Finite 0) None None)) = []"
  using sendPing_nil_request_panics
    [of "\<lparr>dev = False, ping_api_key = [], hostname_override = [], os_Hostname = None,
         FormatFloat = (\<lambda>x. ''0.000''),
         NewRequest_ok = (\<lambda>u. if stringContainsCTLByte u then False else True),
         Client_Do = (\<lambda>i. Response 200 False)\<rparr>"
        "''d3x0c1'' @ [CHR 0x0A]" "''run''" "[]" "[]" "Finite 0" None None]
  by (simp add: pingUri_def pingQuery_def pingHost_def effectiveHostname_def Sprintf_d_def
      decimal.simps stringContainsCTLByte_def)

section \<open>The query string\<close>



text \<open>
  C7. The message, the ping key and the host name are cut to 2000, 50 and 50 bytes, and
  the message and the host name are escaped after being cut (the ping key is not escaped).
  \<^verbatim>\<open>truncateString\<close> keeps the first \<open>n\<close> bytes: a string of at most \<open>n\<close> bytes is
  returned unchanged, a longer one comes back with exactly \<open>n\<close> bytes.
\<close>

theorem truncation_before_escaping:
  "q_msg (pingQuery w message tag timestamp duration exitCode) =
     (if message = [] then [] else ''&msg='' @ QueryEscape (truncateString message 2000))
   \<and> q_auth_key (pingQuery w message tag timestamp duration exitCode) =
     (if ping_api_key w = [] then []
      else ''&auth_key='' @ truncateString (ping_api_key w) 50)
   \<and> q_host (pingQuery w message tag timestamp duration exitCode) =
     (if effectiveHostname w = [] then []
      else ''&host='' @ QueryEscape (truncateString (effectiveHostname w) 50))
   \<and> truncateString s n = take n s
   \<and> (length s \<le> n \<longrightarrow> truncateString s n = s)
   \<and> (n < length s \<longrightarrow> length (truncateString s n) = n)"
  by (simp add: pingQuery_def truncateString_def Let_def)

theorem truncation_before_escaping_witness:
  "q_host (pingQuery
        \<lparr>dev = False, ping_api_key = ''k3y'',
         hostname_override = ''a host name that is longer than fifty bytes, spaces included'',
         os_Hostname = Some ''web 1'', FormatFloat = (\<lambda>x. ''1700000000.123''),
         NewRequest_ok = (\<lambda>u. True), Client_Do = (\<lambda>i. Response 200 False)\<rparr>
        ''done'' [] (Finite 0) None None)
     = ''&host=a+host+name+that+is+longer+than+fifty+bytes%2C+space''
   \<and> truncateString ''a host name that is longer than fifty bytes, spaces included'' 50
     = ''a host name that is longer than fifty bytes, space''
   \<and> truncateString ''done'' 2000 = ''done''"
  using truncation_before_escaping
    [of "\<lparr>dev = False, ping_api_key = ''k3y'',
         hostname_override = ''a host name that is longer than fifty bytes, spaces included'',
         os_Hostname = Some ''web 1'', FormatFloat = (\<lambda>x. ''1700000000.123''),
         NewRequest_ok = (\<lambda>u. True), Client_Do = (\<lambda>i. Response 200 False)\<rparr>"
        "''done''" "[]" "Finite 0" None None
        "''a host name that is longer than fifty bytes, spaces included''" 50]
    truncation_before_escaping
    [of "\<lparr>dev = False, ping_api_key = ''k3y'',
         hostname_override = ''a host name that is longer than fifty bytes, spaces included'',
         os_Hostname = Some ''web 1'', FormatFloat = (\<lambda>x. ''1700000000.123''),
         NewRequest_ok = (\<lambda>u. True), Client_Do = (\<lambda>i. Response 200 False)\<rparr>"
        "''done''" "[]" "Finite 0" None None "''done''" 2000]
  by (simp add: effectiveHostname_def QueryEscape_def escape_byte_def shouldEscape_def)

section \<open>Timezone resolution\<close>

text \<open>
  C8. When the variable \<^verbatim>\<open>TZ\<close> is present, also with an empty value, the resolver returns
  its value unchanged, whatever the \<^verbatim>\<open>timedatectl\<close> command, the link at
  \<^verbatim>\<open>/etc/localtime\<close> and the file \<^verbatim>\<open>/etc/timezone\<close> would give.
\<close>

theorem timezone_TZ_override:
  "LookupEnv_TZ e = Some v \<Longrightarrow> timezoneLocationName e = Inr v"
  by (simp add: timezoneLocationName_def)

theorem timezone_TZ_override_witness:
  "LookupEnv_TZ \<lparr>LookupEnv_TZ = Some ''Europe/Paris'',
                   timedatectl_Output = Some ''Time zone: Asia/Tokyo (JST, +0900)'',
                   FindStringSubmatch = (\<lambda>s. Some [s, ''Asia/Tokyo'']),
                   Lstat_localtime = Some ModeSymlink,
                   Readlink_localtime = Some ''/usr/share/zoneinfo/America/New_York'',
                   ReadFile_timezone = Some ''Etc/UTC''\<rparr> = Some ''Europe/Paris''
   \<and> timezoneLocationName \<lparr>LookupEnv_TZ = Some ''Europe/Paris'',
                   timedatectl_Output = Some ''Time zone: Asia/Tokyo (JST, +0900)'',
                   FindStringSubmatch = (\<lambda>s. Some [s, ''Asia/Tokyo'']),
                   Lstat_localtime = Some ModeSymlink,
                   Readlink_localtime = Some ''/usr/share/zoneinfo/America/New_York'',
                   ReadFile_timezone = Some ''Etc/UTC''\<rparr> = Inr ''Europe/Paris''"
  using timezone_TZ_override
    [of "\<lparr>LookupEnv_TZ = Some ''Europe/Paris'',
          timedatectl_Output = Some ''Time zone: Asia/Tokyo (JST, +0900)'',
          FindStringSubmatch = (\<lambda>s. Some [s, ''Asia/Tokyo'']),
          Lstat_localtime = Some ModeSymlink,
          Readlink_localtime = Some ''/usr/share/zoneinfo/America/New_York'',
          ReadFile_timezone = Some ''Etc/UTC''\<rparr>" "''Europe/Paris''"]
  by simp

text \<open>
  C5. The resolver does not always return a string. With \<^verbatim>\<open>TZ\<close> unset, no
  \<^verbatim>\<open>timedatectl\<close> command, and \<^verbatim>\<open>/etc/localtime\<close> a symbolic link whose target
  \<^verbatim>\<open>UTC\<close> has no slash, the target splits into one piece and the slice expression
  \<^verbatim>\<open>symlinkParts[len(symlinkParts)-2:]\<close> panics, although \<^verbatim>\<open>/etc/timezone\<close> is readable.
\<close>

theorem timezone_symlink_without_slash_panics:
  "timezoneLocationName \<lparr>LookupEnv_TZ = None,
                          timedatectl_Output = None,
                          FindStringSubmatch = (\<lambda>s. None),
                          Lstat_localtime = Some 0x80001FF,
                          Readlink_localtime = Some ''UTC'',
                          ReadFile_timezone = Some ''Etc/UTC''\<rparr>
   = Inl SliceBoundsOutOfRange"
  by (simp add: timezoneLocationName_def timezone_from_timedatectl_def
      timezone_from_symlink_def ModeSymlink_def)

end
